theory Spec2Isabelle
  imports Main "HOL-Library.Sublist" "HOL-Library.Multiset"
begin

section \<open>Python values used by validate.py\<close>

text \<open>
  A Python \<open>str\<close> is a sequence of Unicode code points: slicing and \<open>startswith\<close>
  count code points, and two of the literals of the script hold the curly quotes
  U+201C and U+201D. A \<open>bytes\<close> object is a sequence of 8-bit characters.
\<close>

type_synonym pystr = "nat list"
type_synonym bytes = "char list"

text \<open>An ASCII literal of the script, as the code points of its characters.\<close>

definition str :: "string \<Rightarrow> pystr" where
  "str s = map of_char s"

text \<open>\<^verbatim>\<open>s.startswith(p)\<close> and \<^verbatim>\<open>s.endswith(p)\<close>.\<close>

definition startswith :: "'a list \<Rightarrow> 'a list \<Rightarrow> bool" where
  "startswith s p = (take (length p) s = p)"

definition endswith :: "'a list \<Rightarrow> 'a list \<Rightarrow> bool" where
  "endswith s p = (length p \<le> length s \<and> drop (length s - length p) s = p)"

text \<open>The exceptions that the script can raise, by their Python class.\<close>

datatype error =
    OSError
  | RequestException
  | JSONDecodeError
  | KeyError
  | TypeError
  | AttributeError
  | ValueError
  | OverflowError

text \<open>
  The value that \<^verbatim>\<open>r.json()\<close> returns: \<open>None\<close>, a \<open>bool\<close>, an \<open>int\<close>, a
  \<open>float\<close>, a \<open>str\<close>, a \<open>list\<close> or a \<open>dict\<close> with \<open>str\<close> keys. A \<open>dict\<close> is the
  list of its items in insertion order. Floating-point numbers are kept opaque.
\<close>

typedecl pyfloat

datatype json =
    JNull
  | JBool bool
  | JInt int
  | JFloat pyfloat
  | JStr pystr
  | JArr "json list"
  | JObj "(pystr \<times> json) list"

text \<open>
  \<^verbatim>\<open>v[k]\<close> for a \<open>str\<close> key \<open>k\<close>: a \<open>dict\<close> without the key raises \<open>KeyError\<close>; a
  \<open>list\<close> or a \<open>str\<close> wants an integer index and every other value is not subscriptable,
  both a \<open>TypeError\<close>.
\<close>

fun getitem :: "json \<Rightarrow> pystr \<Rightarrow> error + json" where
  "getitem (JObj kvs) k = (case map_of kvs k of None \<Rightarrow> Inl KeyError | Some v \<Rightarrow> Inr v)"
| "getitem _ k = Inl TypeError"

text \<open>
  The elements that \<^verbatim>\<open>for m in v\<close> visits: the elements of a \<open>list\<close>, the keys of a
  \<open>dict\<close>, the one-character strings of a \<open>str\<close>; every other value is not iterable.
\<close>

fun iter :: "json \<Rightarrow> error + json list" where
  "iter (JArr xs) = Inr xs"
| "iter (JObj kvs) = Inr (map (\<lambda>kv. JStr (fst kv)) kvs)"
| "iter (JStr s) = Inr (map (\<lambda>c. JStr [c]) s)"
| "iter _ = Inl TypeError"

text \<open>The decimal digits of a natural number and Python's \<open>str\<close> of an \<open>int\<close>.\<close>

fun digits :: "nat \<Rightarrow> pystr" where
  "digits n = (if n < 10 then [48 + n] else digits (n div 10) @ [48 + n mod 10])"

declare digits.simps [simp del]

definition decimal :: "int \<Rightarrow> pystr" where
  "decimal i = (if i < 0 then 45 # digits (nat (- i)) else digits (nat i))"

section \<open>The environment of the script\<close>

text \<open>
  An HTTP response as far as the script reads it, and the two requests it sends:
  \<^verbatim>\<open>requests.get(url, verify=...)\<close> and
  \<^verbatim>\<open>requests.post(url, files=..., data=..., verify=...)\<close>. The \<open>files\<close> dictionary
  maps a field name to the tuple (file name, uploaded bytes, content type).
\<close>

record response =
  status_code :: nat
  content :: bytes

datatype http_request =
    Get pystr bool
  | Post pystr "(pystr \<times> pystr \<times> bytes \<times> pystr) list" "(pystr \<times> pystr) list" bool

text \<open>
  What the script is run against. \<open>listdir\<close> is \<^verbatim>\<open>os.listdir(".")\<close> and \<open>open_rb\<close>
  the bytes of a file opened with \<^verbatim>\<open>open(name, "rb")\<close>, \<open>None\<close> when the call raises
  \<open>OSError\<close>. \<open>send\<close> answers an HTTP request, \<open>None\<close> when \<open>requests\<close> raises a
  network fault. \<open>resp_json\<close> is \<^verbatim>\<open>r.json()\<close>, \<open>None\<close> when the body is not valid
  JSON. \<open>py_str\<close> is the builtin \<open>str\<close> on a value that is not a \<open>str\<close>, and
  \<open>float_trunc\<close> the conversion of a \<open>float\<close> for \<^verbatim>\<open>%d\<close>, which raises on a NaN or
  an infinity. The answers do not depend on the moment of the call. The temporary file
  of the remote case is a byte buffer that starts empty, and \<^verbatim>\<open>print\<close> appends a
  line to the standard output.
\<close>

record env =
  listdir :: "pystr list option"
  open_rb :: "pystr \<Rightarrow> bytes option"
  send :: "http_request \<Rightarrow> response option"
  resp_json :: "response \<Rightarrow> json option"
  py_str :: "json \<Rightarrow> pystr"
  float_trunc :: "pyfloat \<Rightarrow> error + int"

section \<open>The validator client\<close>

definition HTML_VALIDATOR_URL :: pystr where
  "HTML_VALIDATOR_URL = str ''http://validator.w3.org/nu/?out=json''"

text \<open>\<^verbatim>\<open>is_remote = filename.startswith("http://") or filename.startswith("https://")\<close>\<close>

definition is_remote :: "pystr \<Rightarrow> bool" where
  "is_remote filename =
     (startswith filename (str ''http://'') \<or> startswith filename (str ''https://''))"

text \<open>
  The context expression of the \<^verbatim>\<open>with\<close> statement: the bytes behind the file
  object \<open>f\<close>, an empty temporary file for a remote target and the opened file otherwise.
\<close>

definition acquire :: "env \<Rightarrow> pystr \<Rightarrow> error + bytes" where
  "acquire env filename =
     (if is_remote filename then Inr []
      else (case open_rb env filename of None \<Rightarrow> Inl OSError | Some b \<Rightarrow> Inr b))"

text \<open>
  \<^verbatim>\<open>if is_remote: r = requests.get(filename, verify=False); f.write(r.content); f.seek(0)\<close>
  The result is the requests sent and the bytes that \<open>f\<close> then reads from its start.
\<close>

definition fetch :: "env \<Rightarrow> pystr \<Rightarrow> bytes \<Rightarrow> http_request list \<times> (error + bytes)" where
  "fetch env filename f =
     (if is_remote filename then
        (case send env (Get filename False) of
           None \<Rightarrow> ([Get filename False], Inl RequestException)
         | Some r \<Rightarrow> ([Get filename False], Inr (f @ content r)))
      else ([], Inr f))"

text \<open>The request of the \<^verbatim>\<open>requests.post\<close> call.\<close>

definition upload :: "pystr \<Rightarrow> bytes \<Rightarrow> http_request" where
  "upload filename f =
     Post HTML_VALIDATOR_URL
       [(str ''file'', (filename, f, str ''text/html''))]
       [(str ''out'', str ''json''), (str ''showsource'', str ''yes'')]
       False"

text \<open>
  \<^verbatim>\<open>def validate(filename, verbose=False)\<close>: the HTTP requests sent, in order, and
  the value returned or the exception raised.
\<close>

definition validate :: "env \<Rightarrow> pystr \<Rightarrow> bool \<Rightarrow> http_request list \<times> (error + json)" where
  "validate env filename verbose =
     (case acquire env filename of
        Inl e \<Rightarrow> ([], Inl e)
      | Inr f0 \<Rightarrow>
          (case fetch env filename f0 of
             (sent, Inl e) \<Rightarrow> (sent, Inl e)
           | (sent, Inr f) \<Rightarrow>
               (case send env (upload filename f) of
                  None \<Rightarrow> (sent @ [upload filename f], Inl RequestException)
                | Some r \<Rightarrow>
                    (sent @ [upload filename f],
                     case resp_json env r of
                       None \<Rightarrow> Inl JSONDecodeError
                     | Some j \<Rightarrow> Inr j))))"

section \<open>The batch driver\<close>

text \<open>What the script does that can be observed: an HTTP request or a printed line.\<close>

datatype event = Http http_request | Stdout pystr

text \<open>
  \<^verbatim>\<open>file_name.endswith(".html") and file_name[0:3] in ["3-5", "4t", "5t"]\<close>
\<close>

definition selected :: "pystr \<Rightarrow> bool" where
  "selected file_name =
     (endswith file_name (str ''.html'') \<and>
      take 3 file_name \<in> set [str ''3-5'', str ''4t'', str ''5t''])"

text \<open>The two literals that a suppressed message starts with.\<close>

definition img_alt_notice :: pystr where
  "img_alt_notice =
     str ''An '' @ [8220] @ str ''img'' @ [8221] @ str '' element must have an '' @
     [8220] @ str ''alt'' @ [8221] @ str '' attribute''"

definition name_obsolete_notice :: pystr where
  "name_obsolete_notice =
     str ''The '' @ [8220] @ str ''name'' @ [8221] @ str '' attribute is obsolete''"

text \<open>\<^verbatim>\<open>%s\<close> and \<^verbatim>\<open>%d\<close> of the \<^verbatim>\<open>%\<close> operator.\<close>

definition fmt_s :: "env \<Rightarrow> json \<Rightarrow> pystr" where
  "fmt_s env v = (case v of JStr s \<Rightarrow> s | _ \<Rightarrow> py_str env v)"

definition fmt_d :: "env \<Rightarrow> json \<Rightarrow> error + pystr" where
  "fmt_d env v =
     (case v of
        JInt i \<Rightarrow> Inr (decimal i)
      | JBool b \<Rightarrow> Inr (decimal (if b then 1 else 0))
      | JFloat x \<Rightarrow> (case float_trunc env x of Inl e \<Rightarrow> Inl e | Inr i \<Rightarrow> Inr (decimal i))
      | _ \<Rightarrow> Inl TypeError)"

text \<open>
  \<^verbatim>\<open>"Type: %(type)s, Line: %(lastLine)d, Description: %(message)s" % m\<close>: the keys are
  looked up and converted from left to right.
\<close>

definition format_line :: "env \<Rightarrow> json \<Rightarrow> error + pystr" where
  "format_line env m =
     (case getitem m (str ''type'') of
        Inl e \<Rightarrow> Inl e
      | Inr t \<Rightarrow>
          (case getitem m (str ''lastLine'') of
             Inl e \<Rightarrow> Inl e
           | Inr l \<Rightarrow>
               (case fmt_d env l of
                  Inl e \<Rightarrow> Inl e
                | Inr ln \<Rightarrow>
                    (case getitem m (str ''message'') of
                       Inl e \<Rightarrow> Inl e
                     | Inr d \<Rightarrow>
                         Inr (str ''Type: '' @ fmt_s env t @ str '', Line: '' @ ln @
                              str '', Description: '' @ fmt_s env d)))))"

text \<open>
  The condition of the inner \<^verbatim>\<open>if\<close>: \<^verbatim>\<open>m["message"]\<close> is looked up and must be
  a \<open>str\<close>, the only value of a JSON document that has \<open>startswith\<close>.
\<close>

definition suppressed :: "json \<Rightarrow> error + bool" where
  "suppressed m =
     (case getitem m (str ''message'') of
        Inl e \<Rightarrow> Inl e
      | Inr (JStr s) \<Rightarrow> Inr (startswith s img_alt_notice \<or> startswith s name_obsolete_notice)
      | Inr _ \<Rightarrow> Inl AttributeError)"

text \<open>The body of \<^verbatim>\<open>for m in messages\<close> and the loop: a fault ends it.\<close>

definition report :: "env \<Rightarrow> json \<Rightarrow> event list \<times> (error + unit)" where
  "report env m =
     (case suppressed m of
        Inl e \<Rightarrow> ([], Inl e)
      | Inr True \<Rightarrow> ([], Inr ())
      | Inr False \<Rightarrow>
          (case format_line env m of
             Inl e \<Rightarrow> ([], Inl e)
           | Inr line \<Rightarrow> ([Stdout line], Inr ())))"

fun report_all :: "env \<Rightarrow> json list \<Rightarrow> event list \<times> (error + unit)" where
  "report_all env [] = ([], Inr ())"
| "report_all env (m # ms) =
     (case report env m of
        (out, Inl e) \<Rightarrow> (out, Inl e)
      | (out, Inr _) \<Rightarrow> (case report_all env ms of (out', r) \<Rightarrow> (out @ out', r)))"

text \<open>
  The body of \<^verbatim>\<open>for file_name in os.listdir(".")\<close> for one entry; \<open>validate\<close> is
  called with its default \<open>verbose=False\<close>.
\<close>

definition process_file :: "env \<Rightarrow> pystr \<Rightarrow> event list \<times> (error + unit)" where
  "process_file env file_name =
     (if selected file_name then
        (case validate env file_name False of
           (sent, res) \<Rightarrow>
             (let evs = Stdout (str ''Processing '' @ file_name) # map Http sent in
              case res of
                Inl e \<Rightarrow> (evs, Inl e)
              | Inr j \<Rightarrow>
                  (case getitem j (str ''messages'') of
                     Inl e \<Rightarrow> (evs, Inl e)
                   | Inr messages \<Rightarrow>
                       (case iter messages of
                          Inl e \<Rightarrow> (evs, Inl e)
                        | Inr ms \<Rightarrow>
                            (case report_all env ms of (out, r) \<Rightarrow> (evs @ out, r))))))
      else ([], Inr ()))"

text \<open>The loop over the directory entries: an uncaught fault ends the script.\<close>

fun batch :: "env \<Rightarrow> pystr list \<Rightarrow> event list \<times> (error + unit)" where
  "batch env [] = ([], Inr ())"
| "batch env (file_name # rest) =
     (case process_file env file_name of
        (evs, Inl e) \<Rightarrow> (evs, Inl e)
      | (evs, Inr _) \<Rightarrow> (case batch env rest of (evs', r) \<Rightarrow> (evs @ evs', r)))"

definition main :: "env \<Rightarrow> event list \<times> (error + unit)" where
  "main env =
     (case listdir env of
        None \<Rightarrow> ([], Inl OSError)
      | Some names \<Rightarrow> batch env names)"

text \<open>Projections of a run: the lines printed and the files uploaded, in order.\<close>

fun printed :: "event list \<Rightarrow> pystr list" where
  "printed [] = []"
| "printed (Stdout l # evs) = l # printed evs"
| "printed (Http q # evs) = printed evs"

fun submitted :: "event list \<Rightarrow> pystr list" where
  "submitted [] = []"
| "submitted (Http (Post u fs d v) # evs) = map (\<lambda>p. fst (snd p)) fs @ submitted evs"
| "submitted (e # evs) = submitted evs"

text \<open>
  The diagnostic lines among the printed ones: a progress line starts with
  \<^verbatim>\<open>Processing \<close> and a diagnostic line with \<^verbatim>\<open>Type: \<close>.
\<close>

definition diagnostics :: "event list \<Rightarrow> pystr list" where
  "diagnostics evs = filter (\<lambda>l. startswith l (str ''Type: '')) (printed evs)"

section \<open>The message record of the specification\<close>

text \<open>
  A validation message as the specification describes it: a type, the number of its
  last line and a description. A JSON message carries such a record when its keys
  \<open>type\<close>, \<open>lastLine\<close> and \<open>message\<close> hold a string, an integer and a string; it may
  hold any other key.
\<close>

record validation_message =
  msg_type :: pystr
  last_line :: int
  msg_text :: pystr

definition carries :: "json \<Rightarrow> validation_message \<Rightarrow> bool" where
  "carries m vm =
     (getitem m (str ''type'') = Inr (JStr (msg_type vm)) \<and>
      getitem m (str ''lastLine'') = Inr (JInt (last_line vm)) \<and>
      getitem m (str ''message'') = Inr (JStr (msg_text vm)))"

text \<open>The two notices to suppress and the line to print, in the specification's words.\<close>

definition noisy :: "validation_message \<Rightarrow> bool" where
  "noisy vm =
     (startswith (msg_text vm) img_alt_notice \<or> startswith (msg_text vm) name_obsolete_notice)"

definition diagnostic_line :: "validation_message \<Rightarrow> pystr" where
  "diagnostic_line vm =
     str ''Type: '' @ msg_type vm @ str '', Line: '' @ decimal (last_line vm) @
     str '', Description: '' @ msg_text vm"

section \<open>A sample environment\<close>

text \<open>
  A directory, a web page and a validator to run the script on. Every file but
  \<^verbatim>\<open>missing.html\<close> can be read. The validator answers the upload of \<open>demo_page\<close>
  with two messages, the upload of the bytes of \<^verbatim>\<open>3-5c.html\<close> with one, the upload of
  the page that the web server returns with none, and every other upload with a body
  that is not JSON.
\<close>

definition demo_messages :: "json list" where
  "demo_messages =
     [JObj [(str ''message'', JStr (img_alt_notice @ str '' ...'')),
            (str ''type'', JStr (str ''error'')),
            (str ''lastLine'', JInt 1)],
      JObj [(str ''message'', JStr (str ''Bad tag'')),
            (str ''type'', JStr (str ''error'')),
            (str ''lastLine'', JInt 2)]]"

definition demo_messages_c :: "json list" where
  "demo_messages_c =
     [JObj [(str ''type'', JStr (str ''info'')),
            (str ''lastLine'', JInt 12),
            (str ''firstColumn'', JInt 3),
            (str ''message'', JStr (str ''Stray end tag''))]]"

definition demo_page :: bytes where
  "demo_page = ''<img src=x><bad>''"

definition demo_env :: env where
  "demo_env =
     \<lparr>listdir = Some [str ''3-5a.html'', str ''4ty.html'', str ''5tz.html'',
                      str ''other.html'', str ''notes.txt''],
      open_rb = (\<lambda>name.
        if name = str ''missing.html'' then None
        else if name = str ''3-5b.html'' then Some ''<p>''
        else if name = str ''3-5c.html'' then Some ''</i>''
        else Some demo_page),
      send = (\<lambda>q.
        case q of
          Get url verify \<Rightarrow>
            if url = str ''https://example.com/page.html''
            then Some \<lparr>status_code = 404, content = ''<h1>Not Found</h1>''\<rparr>
            else None
        | Post url files data verify \<Rightarrow>
            Some \<lparr>status_code = 200,
                  content =
                    (if map (\<lambda>p. fst (snd (snd p))) files = [demo_page] then ''M''
                     else if map (\<lambda>p. fst (snd (snd p))) files = [''</i>''] then ''N''
                     else if map (\<lambda>p. fst (snd (snd p))) files = [''<h1>Not Found</h1>'']
                     then ''E''
                     else ''<html>busy</html>'')\<rparr>),
      resp_json = (\<lambda>r.
        if content r = ''M'' then Some (JObj [(str ''messages'', JArr demo_messages)])
        else if content r = ''N'' then Some (JObj [(str ''messages'', JArr demo_messages_c)])
        else if content r = ''E'' then Some (JObj [(str ''messages'', JArr [])])
        else None),
      py_str = (\<lambda>v. []),
      float_trunc = (\<lambda>x. Inr 0)\<rparr>"

section \<open>Strings\<close>

lemma startswith_prefix: "startswith s p = prefix p s"
  unfolding startswith_def prefix_def
  by (metis append_eq_conv_conj)

lemma endswith_suffix: "endswith s p = suffix p s"
  unfolding endswith_def suffix_def
  by (metis append_eq_conv_conj append_take_drop_id diff_add_inverse2 le_add2 length_append
      length_drop)

section \<open>The file name filter\<close>

text \<open>
  The slice \<^verbatim>\<open>file_name[0:3]\<close> of a name that ends with \<^verbatim>\<open>.html\<close> has three
  characters, so it never equals one of the two-character entries of the list: the
  filter selects the names that start with \<^verbatim>\<open>3-5\<close> only.
\<close>

lemma selected_iff:
  "selected file_name = (endswith file_name (str ''.html'') \<and> take 3 file_name = str ''3-5'')"
proof -
  have short: "take 3 file_name \<noteq> p" if "endswith file_name (str ''.html'')" "length p = 2" for p
  proof
    assume "take 3 file_name = p"
    then have "length (take 3 file_name) = 2" using that(2) by simp
    moreover have "5 \<le> length file_name" using that(1) by (simp add: endswith_def str_def)
    ultimately show False by simp
  qed
  have "take 3 file_name \<noteq> str ''4t''" "take 3 file_name \<noteq> str ''5t''"
    if "endswith file_name (str ''.html'')"
    using short [OF that] by (simp_all add: str_def)
  then show ?thesis by (auto simp add: selected_def)
qed

section \<open>Decimal numerals\<close>

lemma digits_range: "c \<in> set (digits n) \<Longrightarrow> 48 \<le> c \<and> c \<le> 57"
proof (induction n rule: digits.induct)
  case (1 n)
  show ?case
  proof (cases "n < 10")
    case True
    with "1.prems" show ?thesis by (simp add: digits.simps [of n])
  next
    case False
    with "1.prems" have "c \<in> set (digits (n div 10)) \<or> c = 48 + n mod 10"
      by (auto simp add: digits.simps [of n])
    then show ?thesis using "1.IH" [OF False] by auto
  qed
qed

lemma digits_value: "foldl (\<lambda>a c. 10 * a + (c - 48)) 0 (digits n) = n"
proof (induction n rule: digits.induct)
  case (1 n)
  show ?case
  proof (cases "n < 10")
    case True
    then show ?thesis by (simp add: digits.simps [of n])
  next
    case False
    then show ?thesis using "1.IH" by (simp add: digits.simps [of n])
  qed
qed

lemma decimal_2: "decimal 2 = str ''2''"
  by (simp add: decimal_def digits.simps str_def)

lemma decimal_12: "decimal 12 = str ''12''"
  by (simp add: decimal_def digits.simps str_def)

section \<open>The validator client: the requests of one call\<close>

lemma is_remote_prefix:
  "is_remote t = (prefix (str ''http://'') t \<or> prefix (str ''https://'') t)"
  by (simp add: is_remote_def startswith_prefix)

lemma validate_remote:
  assumes "is_remote t" "send env (Get t False) = Some r"
  shows "fst (validate env t v) = [Get t False, upload t (content r)]"
  using assms by (simp add: validate_def acquire_def fetch_def split: option.split)

lemma validate_local_no_get:
  assumes "\<not> is_remote t"
  shows "Get u vf \<notin> set (fst (validate env t v))"
  using assms by (simp add: validate_def acquire_def fetch_def upload_def split: option.split)

lemma validate_local:
  assumes "\<not> is_remote t" "open_rb env t = Some b"
  shows "fst (validate env t v) = [upload t b]"
  using assms by (simp add: validate_def acquire_def fetch_def split: option.split)

text \<open>
  A call that sends a POST sends the upload of the target, after the GET of a remote
  target, and its outcome is decided by the answer to that upload.
\<close>

lemma validate_posts:
  assumes "Post u fs d vf \<in> set (fst (validate env t v))"
  shows "\<exists>b. Post u fs d vf = upload t b \<and>
           validate env t v =
             (if is_remote t then [Get t False, upload t b] else [upload t b],
              case send env (upload t b) of
                None \<Rightarrow> Inl RequestException
              | Some r \<Rightarrow> (case resp_json env r of None \<Rightarrow> Inl JSONDecodeError | Some j \<Rightarrow> Inr j))"
  using assms
  by (auto simp add: validate_def acquire_def fetch_def split: option.splits if_splits)

section \<open>The batch driver: messages, files and the loop\<close>

lemma report_carries:
  assumes "carries m vm"
  shows "report env m = (if noisy vm then [] else [Stdout (diagnostic_line vm)], Inr ())"
  using assms
  by (simp add: carries_def report_def suppressed_def noisy_def format_line_def fmt_d_def
      fmt_s_def diagnostic_line_def)

lemma report_all_carries:
  assumes "list_all2 carries ms vms"
  shows "report_all env ms =
           (map (\<lambda>vm. Stdout (diagnostic_line vm)) (filter (\<lambda>vm. \<not> noisy vm) vms), Inr ())"
  using assms
  by (induction ms vms rule: list_all2_induct) (simp_all add: report_carries)

lemma process_file_carries:
  assumes "selected f" "validate env f False = (sent, Inr j)"
    "getitem j (str ''messages'') = Inr (JArr ms)" "list_all2 carries ms vms"
  shows "process_file env f =
           (Stdout (str ''Processing '' @ f) # map Http sent @
            map (\<lambda>vm. Stdout (diagnostic_line vm)) (filter (\<lambda>vm. \<not> noisy vm) vms), Inr ())"
  using assms by (simp add: process_file_def report_all_carries)

lemma process_file_validate_fault:
  assumes "selected f" "snd (validate env f False) = Inl e"
  shows "process_file env f =
           (Stdout (str ''Processing '' @ f) # map Http (fst (validate env f False)), Inl e)"
  using assms by (auto simp add: process_file_def split: prod.splits sum.splits)

lemma batch_append_ok:
  assumes "snd (batch env pre) = Inr ()"
  shows "batch env (pre @ rest) =
           (fst (batch env pre) @ fst (batch env rest), snd (batch env rest))"
  using assms
  by (induction pre) (auto split: prod.splits sum.splits)

lemma batch_fault_first:
  assumes "snd (process_file env f) = Inl e"
  shows "batch env (f # rest) = (fst (process_file env f), Inl e)"
  using assms by (auto split: prod.splits sum.splits)

lemma batch_ok_iff:
  "snd (batch env xs) = Inr () \<longleftrightarrow> (\<forall>x \<in> set xs. snd (process_file env x) = Inr ())"
  by (induction xs) (auto split: prod.splits sum.splits)

lemma batch_ok_events:
  assumes "snd (batch env xs) = Inr ()"
  shows "fst (batch env xs) = concat (map (\<lambda>x. fst (process_file env x)) xs)"
  using assms
  by (induction xs) (auto split: prod.splits sum.splits)

lemma printed_append: "printed (xs @ ys) = printed xs @ printed ys"
  by (induction xs rule: printed.induct) simp_all

lemma printed_concat: "printed (concat xss) = concat (map printed xss)"
  by (induction xss) (simp_all add: printed_append)

lemma batch_ok_printed:
  assumes "snd (batch env xs) = Inr ()"
  shows "mset (printed (fst (batch env xs))) =
           (\<Sum>x \<in># mset xs. mset (printed (fst (process_file env x))))"
proof -
  have "mset (printed (fst (batch env xs))) =
      sum_list (map (\<lambda>x. mset (printed (fst (process_file env x)))) xs)"
    by (simp add: batch_ok_events [OF assms] printed_concat mset_concat comp_def)
  also have "\<dots> = (\<Sum>x \<in># mset xs. mset (printed (fst (process_file env x))))"
    by (induction xs) simp_all
  finally show ?thesis .
qed

lemma batch_permuted:
  assumes "mset xs = mset ys" "snd (batch env xs) = Inr ()"
  shows "snd (batch env ys) = Inr ()"
    and "mset (printed (fst (batch env ys))) = mset (printed (fst (batch env xs)))"
proof -
  have "set xs = set ys" using assms(1) by (rule mset_eq_setD)
  with assms(2) show ok: "snd (batch env ys) = Inr ()"
    by (simp add: batch_ok_iff)
  show "mset (printed (fst (batch env ys))) = mset (printed (fst (batch env xs)))"
    by (simp add: batch_ok_printed [OF ok] batch_ok_printed [OF assms(2)] assms(1))
qed

section \<open>The script on the sample environment\<close>

lemma demo_selected:
  "selected (str ''3-5a.html'')" "selected (str ''3-5b.html'')" "selected (str ''3-5c.html'')"
  "\<not> selected (str ''4ty.html'')" "\<not> selected (str ''5tz.html'')"
  "\<not> selected (str ''other.html'')" "\<not> selected (str ''notes.txt'')"
  by (simp_all add: selected_def endswith_def str_def)

lemma demo_remote: "is_remote (str ''https://example.com/page.html'')"
  by (simp add: is_remote_def startswith_def str_def)

lemma demo_local:
  "\<not> is_remote (str ''3-5a.html'')" "\<not> is_remote (str ''3-5b.html'')"
  "\<not> is_remote (str ''3-5c.html'')"
  by (simp_all add: is_remote_def startswith_def str_def)

lemma demo_get:
  "send demo_env (Get (str ''https://example.com/page.html'') False) =
     Some \<lparr>status_code = 404, content = ''<h1>Not Found</h1>''\<rparr>"
  by (simp add: demo_env_def)

lemma demo_open:
  "open_rb demo_env (str ''3-5a.html'') = Some demo_page"
  "open_rb demo_env (str ''3-5b.html'') = Some ''<p>''"
  "open_rb demo_env (str ''3-5c.html'') = Some ''</i>''"
  by (simp_all add: demo_env_def str_def)

lemma demo_carries:
  "list_all2 carries demo_messages
     [\<lparr>msg_type = str ''error'', last_line = 1, msg_text = img_alt_notice @ str '' ...''\<rparr>,
      \<lparr>msg_type = str ''error'', last_line = 2, msg_text = str ''Bad tag''\<rparr>]"
  by (simp add: carries_def demo_messages_def str_def)

lemma bad_tag_not_noisy:
  "\<not> noisy \<lparr>msg_type = t, last_line = n, msg_text = str ''Bad tag''\<rparr>"
  by (simp add: noisy_def startswith_def img_alt_notice_def name_obsolete_notice_def str_def)

lemma img_alt_noisy:
  "noisy \<lparr>msg_type = t, last_line = n, msg_text = img_alt_notice @ rest\<rparr>"
  by (simp add: noisy_def startswith_def)

lemma bad_tag_line:
  "diagnostic_line \<lparr>msg_type = str ''error'', last_line = 2, msg_text = str ''Bad tag''\<rparr> =
     str ''Type: error, Line: 2, Description: Bad tag''"
  by (simp add: diagnostic_line_def decimal_2) (simp add: str_def)

lemma demo_carries_c:
  "list_all2 carries demo_messages_c
     [\<lparr>msg_type = str ''info'', last_line = 12, msg_text = str ''Stray end tag''\<rparr>]"
  by (simp add: carries_def demo_messages_c_def str_def)

lemma stray_not_noisy:
  "\<not> noisy \<lparr>msg_type = t, last_line = n, msg_text = str ''Stray end tag''\<rparr>"
  by (simp add: noisy_def startswith_def img_alt_notice_def name_obsolete_notice_def str_def)

lemma stray_line:
  "diagnostic_line \<lparr>msg_type = str ''info'', last_line = 12, msg_text = str ''Stray end tag''\<rparr> =
     str ''Type: info, Line: 12, Description: Stray end tag''"
  by (simp add: diagnostic_line_def decimal_12) (simp add: str_def)

lemma stray_diagnostic:
  "startswith (str ''Type: info, Line: 12, Description: Stray end tag'') (str ''Type: '')"
  by (simp add: startswith_def str_def)

lemma bad_tag_diagnostic:
  "startswith (str ''Type: error, Line: 2, Description: Bad tag'') (str ''Type: '')"
  by (simp add: startswith_def str_def)

lemma processing_not_diagnostic: "\<not> startswith (str ''Processing '' @ n) (str ''Type: '')"
  by (simp add: startswith_def str_def)

lemma demo_report_all:
  "report_all env demo_messages =
     ([Stdout (str ''Type: error, Line: 2, Description: Bad tag'')], Inr ())"
  by (simp add: report_all_carries [OF demo_carries] bad_tag_not_noisy img_alt_noisy bad_tag_line)

lemma demo_validate_a:
  "validate demo_env (str ''3-5a.html'') v =
     ([upload (str ''3-5a.html'') demo_page], Inr (JObj [(str ''messages'', JArr demo_messages)]))"
  by (simp add: validate_def acquire_def fetch_def demo_local demo_open)
     (simp add: demo_env_def upload_def)

lemma demo_validate_b:
  "validate demo_env (str ''3-5b.html'') v =
     ([upload (str ''3-5b.html'') ''<p>''], Inl JSONDecodeError)"
  by (simp add: validate_def acquire_def fetch_def demo_local demo_open)
     (simp add: demo_env_def upload_def demo_page_def)

lemma demo_process_a:
  "process_file demo_env (str ''3-5a.html'') =
     ([Stdout (str ''Processing '' @ str ''3-5a.html''),
       Http (upload (str ''3-5a.html'') demo_page),
       Stdout (str ''Type: error, Line: 2, Description: Bad tag'')], Inr ())"
  by (simp add: process_file_def demo_selected demo_validate_a demo_report_all)

lemma demo_validate_c:
  "validate demo_env (str ''3-5c.html'') v =
     ([upload (str ''3-5c.html'') ''</i>''],
      Inr (JObj [(str ''messages'', JArr demo_messages_c)]))"
  by (simp add: validate_def acquire_def fetch_def demo_local demo_open)
     (simp add: demo_env_def upload_def demo_page_def)

lemma demo_process_c:
  "process_file demo_env (str ''3-5c.html'') =
     ([Stdout (str ''Processing '' @ str ''3-5c.html''),
       Http (upload (str ''3-5c.html'') ''</i>''),
       Stdout (str ''Type: info, Line: 12, Description: Stray end tag'')], Inr ())"
  by (simp add: process_file_def demo_selected demo_validate_c
      report_all_carries [OF demo_carries_c] stray_not_noisy stray_line)

lemma demo_process_b:
  "process_file demo_env (str ''3-5b.html'') =
     ([Stdout (str ''Processing '' @ str ''3-5b.html''),
       Http (upload (str ''3-5b.html'') ''<p>'')], Inl JSONDecodeError)"
  by (simp add: process_file_def demo_selected demo_validate_b)

lemma demo_process_skipped:
  "process_file demo_env (str ''4ty.html'') = ([], Inr ())"
  "process_file demo_env (str ''5tz.html'') = ([], Inr ())"
  "process_file demo_env (str ''other.html'') = ([], Inr ())"
  "process_file demo_env (str ''notes.txt'') = ([], Inr ())"
  by (simp_all add: process_file_def demo_selected)

section \<open>The claims\<close>

subsection \<open>C1: the file name filter\<close>

text \<open>
  Claim C1 says that in a directory holding \<^verbatim>\<open>3-5a.html\<close>, \<^verbatim>\<open>4ty.html\<close>,
  \<^verbatim>\<open>5tz.html\<close> and \<^verbatim>\<open>other.html\<close> the first three names are selected. The
  script compares the three-character slice \<^verbatim>\<open>file_name[0:3]\<close> with the
  two-character entries \<^verbatim>\<open>4t\<close> and \<^verbatim>\<open>5t\<close>, which it never equals: on this
  directory the filter keeps \<^verbatim>\<open>3-5a.html\<close> alone, and a run of the script on the
  sample environment uploads that file and no other.
\<close>

theorem C1_only_3_5_selected:
  "filter selected [str ''3-5a.html'', str ''4ty.html'', str ''5tz.html'', str ''other.html'',
     str ''notes.txt''] = [str ''3-5a.html''] \<and>
   submitted (fst (main demo_env)) = [str ''3-5a.html'']"
proof -
  have dir: "listdir demo_env = Some [str ''3-5a.html'', str ''4ty.html'', str ''5tz.html'',
      str ''other.html'', str ''notes.txt'']"
    by (simp add: demo_env_def)
  have "submitted (fst (main demo_env)) = [str ''3-5a.html'']"
    by (simp add: main_def dir demo_process_a demo_process_skipped upload_def)
  then show ?thesis using demo_selected by simp
qed

subsection \<open>C2: suppressed and printed messages\<close>

text \<open>
  Claim C2: when the validator's result for a selected file holds a list of messages
  that carry the records \<open>vms\<close>, the driver prints the progress line and then, in order,
  one line \<^verbatim>\<open>Type: <type>, Line: <lastLine>, Description: <message>\<close> for each record
  whose description starts with neither of the two notices, and nothing for the others.
\<close>

theorem C2_messages_filtered_and_formatted:
  assumes "selected f"
    and "validate env f False = (sent, Inr j)"
    and "getitem j (str ''messages'') = Inr (JArr ms)"
    and "list_all2 carries ms vms"
  shows "process_file env f =
           (Stdout (str ''Processing '' @ f) # map Http sent @
            map (\<lambda>vm. Stdout (diagnostic_line vm)) (filter (\<lambda>vm. \<not> noisy vm) vms), Inr ())"
  using assms by (rule process_file_carries)

text \<open>
  The two messages of the claim: the notice about \<open>alt\<close> is suppressed and the line
  \<^verbatim>\<open>Type: error, Line: 2, Description: Bad tag\<close> is the one diagnostic printed.
\<close>

theorem C2_witness:
  "selected (str ''3-5a.html'') \<and>
   validate demo_env (str ''3-5a.html'') False =
     ([upload (str ''3-5a.html'') demo_page],
      Inr (JObj [(str ''messages'', JArr demo_messages)])) \<and>
   getitem (JObj [(str ''messages'', JArr demo_messages)]) (str ''messages'') =
     Inr (JArr demo_messages) \<and>
   list_all2 carries demo_messages
     [\<lparr>msg_type = str ''error'', last_line = 1, msg_text = img_alt_notice @ str '' ...''\<rparr>,
      \<lparr>msg_type = str ''error'', last_line = 2, msg_text = str ''Bad tag''\<rparr>] \<and>
   printed (fst (process_file demo_env (str ''3-5a.html''))) =
     [str ''Processing '' @ str ''3-5a.html'',
      str ''Type: error, Line: 2, Description: Bad tag'']"
proof -
  have g: "getitem (JObj [(str ''messages'', JArr demo_messages)]) (str ''messages'') =
      Inr (JArr demo_messages)"
    by simp
  show ?thesis
    using demo_selected(1) demo_validate_a [of False] g demo_carries
      C2_messages_filtered_and_formatted [OF demo_selected(1) demo_validate_a g demo_carries]
    by (simp add: bad_tag_not_noisy img_alt_noisy bad_tag_line)
qed

subsection \<open>C3: a remote target\<close>

text \<open>
  Claim C3: a target that begins with \<^verbatim>\<open>http://\<close> or \<^verbatim>\<open>https://\<close> and whose GET
  is answered makes \<open>validate\<close> send exactly the GET of the target and then one POST to
  the validator endpoint whose \<open>file\<close> field uploads the body of the GET's response; a
  target that begins with neither makes it send no GET.
\<close>

theorem C3_remote_get_then_post:
  "(prefix (str ''http://'') t \<or> prefix (str ''https://'') t \<longrightarrow>
      send env (Get t False) = Some r \<longrightarrow>
      fst (validate env t v) =
        [Get t False,
         Post HTML_VALIDATOR_URL [(str ''file'', (t, content r, str ''text/html''))]
           [(str ''out'', str ''json''), (str ''showsource'', str ''yes'')] False]) \<and>
   (\<not> (prefix (str ''http://'') t \<or> prefix (str ''https://'') t) \<longrightarrow>
      (\<forall>u vf. Get u vf \<notin> set (fst (validate env t v))))"
  using validate_remote [of t env r v] validate_local_no_get [of t _ _ env v]
  by (simp add: is_remote_prefix [symmetric] upload_def)

theorem C3_witness:
  "prefix (str ''https://'') (str ''https://example.com/page.html'') \<and>
   send demo_env (Get (str ''https://example.com/page.html'') False) =
     Some \<lparr>status_code = 404, content = ''<h1>Not Found</h1>''\<rparr> \<and>
   fst (validate demo_env (str ''https://example.com/page.html'') False) =
     [Get (str ''https://example.com/page.html'') False,
      Post HTML_VALIDATOR_URL
        [(str ''file'', (str ''https://example.com/page.html'', ''<h1>Not Found</h1>'',
           str ''text/html''))]
        [(str ''out'', str ''json''), (str ''showsource'', str ''yes'')] False] \<and>
   \<not> (prefix (str ''http://'') (str ''3-5a.html'') \<or>
      prefix (str ''https://'') (str ''3-5a.html'')) \<and>
   Get (str ''3-5a.html'') False \<notin> set (fst (validate demo_env (str ''3-5a.html'') False))"
proof -
  have p: "prefix (str ''https://'') (str ''https://example.com/page.html'')"
    by (simp add: str_def)
  have q: "\<not> (prefix (str ''http://'') (str ''3-5a.html'') \<or>
      prefix (str ''https://'') (str ''3-5a.html''))"
    by (simp add: str_def)
  show ?thesis
    using p q demo_get
      C3_remote_get_then_post [of "str ''https://example.com/page.html''" demo_env
        "\<lparr>status_code = 404, content = ''<h1>Not Found</h1>''\<rparr>" False]
      C3_remote_get_then_post [of "str ''3-5a.html''" demo_env
        "\<lparr>status_code = 0, content = []\<rparr>" False]
    by simp
qed

subsection \<open>C4: a local target\<close>

text \<open>
  Claim C4: for a target that is not a URL and names a readable file, \<open>validate\<close> sends
  no GET and exactly one request, the POST to the validator endpoint whose \<open>file\<close> field
  uploads the bytes of the file.
\<close>

theorem C4_local_one_post:
  assumes "\<not> (prefix (str ''http://'') t \<or> prefix (str ''https://'') t)"
    and "open_rb env t = Some b"
  shows "fst (validate env t v) =
           [Post HTML_VALIDATOR_URL [(str ''file'', (t, b, str ''text/html''))]
              [(str ''out'', str ''json''), (str ''showsource'', str ''yes'')] False]"
  using assms validate_local [of t env b v]
  by (simp add: is_remote_prefix [symmetric] upload_def)

theorem C4_witness:
  "\<not> (prefix (str ''http://'') (str ''3-5a.html'') \<or>
      prefix (str ''https://'') (str ''3-5a.html'')) \<and>
   open_rb demo_env (str ''3-5a.html'') = Some demo_page \<and>
   fst (validate demo_env (str ''3-5a.html'') False) =
     [Post HTML_VALIDATOR_URL [(str ''file'', (str ''3-5a.html'', demo_page, str ''text/html''))]
        [(str ''out'', str ''json''), (str ''showsource'', str ''yes'')] False]"
proof -
  have q: "\<not> (prefix (str ''http://'') (str ''3-5a.html'') \<or>
      prefix (str ''https://'') (str ''3-5a.html''))"
    by (simp add: str_def)
  show ?thesis
    using q demo_open(1) C4_local_one_post [OF q demo_open(1), of False] by simp
qed

subsection \<open>C5: a response that is not JSON\<close>

text \<open>
  Claim C5: when the validator answers the POST of \<open>validate\<close> with a response whose
  body is not valid JSON, \<open>validate\<close> raises the decoding fault; it returns no value, and
  so not the empty string that its docstring announces.
\<close>

theorem C5_non_json_raises:
  assumes "Post u fs d vf \<in> set (fst (validate env t v))"
    and "send env (Post u fs d vf) = Some r"
    and "resp_json env r = None"
  shows "snd (validate env t v) = Inl JSONDecodeError \<and> snd (validate env t v) \<noteq> Inr (JStr [])"
proof -
  from validate_posts [OF assms(1)] obtain b where
    b: "Post u fs d vf = upload t b"
    "snd (validate env t v) =
       (case send env (upload t b) of
          None \<Rightarrow> Inl RequestException
        | Some r \<Rightarrow> (case resp_json env r of None \<Rightarrow> Inl JSONDecodeError | Some j \<Rightarrow> Inr j))"
    by auto
  from assms(2,3) b show ?thesis by simp
qed

theorem C5_witness:
  "upload (str ''3-5b.html'') ''<p>'' \<in> set (fst (validate demo_env (str ''3-5b.html'') False)) \<and>
   send demo_env (upload (str ''3-5b.html'') ''<p>'') =
     Some \<lparr>status_code = 200, content = ''<html>busy</html>''\<rparr> \<and>
   resp_json demo_env \<lparr>status_code = 200, content = ''<html>busy</html>''\<rparr> = None \<and>
   snd (validate demo_env (str ''3-5b.html'') False) = Inl JSONDecodeError \<and>
   snd (validate demo_env (str ''3-5b.html'') False) \<noteq> Inr (JStr [])"
proof -
  have a: "Post HTML_VALIDATOR_URL [(str ''file'', (str ''3-5b.html'', ''<p>'', str ''text/html''))]
      [(str ''out'', str ''json''), (str ''showsource'', str ''yes'')] False
      \<in> set (fst (validate demo_env (str ''3-5b.html'') False))"
    by (simp add: demo_validate_b upload_def)
  have b: "send demo_env (Post HTML_VALIDATOR_URL
      [(str ''file'', (str ''3-5b.html'', ''<p>'', str ''text/html''))]
      [(str ''out'', str ''json''), (str ''showsource'', str ''yes'')] False) =
      Some \<lparr>status_code = 200, content = ''<html>busy</html>''\<rparr>"
    by (simp add: demo_env_def demo_page_def)
  have c: "resp_json demo_env \<lparr>status_code = 200, content = ''<html>busy</html>''\<rparr> = None"
    by (simp add: demo_env_def)
  show ?thesis
    using a b c C5_non_json_raises [OF a b c] by (simp add: upload_def)
qed

subsection \<open>C6: a fault ends the batch\<close>

text \<open>
  Claim C6: when \<open>validate\<close> raises on a selected entry \<open>f\<close> of the directory, the batch
  ends with a fault whatever the entries are, and when the entries before \<open>f\<close> were
  processed without a fault it ends with the fault of \<open>f\<close> right after the requests of
  that call: the entries after \<open>f\<close> leave no trace in the run.
\<close>

theorem C6_fault_aborts_batch:
  assumes "selected f"
    and "snd (validate env f False) = Inl e"
  shows "(snd (batch env pre) = Inr () \<longrightarrow>
            batch env (pre @ f # rest) =
              (fst (batch env pre) @
               Stdout (str ''Processing '' @ f) # map Http (fst (validate env f False)), Inl e)) \<and>
         (\<exists>e'. snd (batch env (pre @ f # rest)) = Inl e')"
proof -
  have pf: "process_file env f =
      (Stdout (str ''Processing '' @ f) # map Http (fst (validate env f False)), Inl e)"
    using assms by (rule process_file_validate_fault)
  have first: "snd (batch env pre) = Inr () \<longrightarrow>
      batch env (pre @ f # rest) =
        (fst (batch env pre) @
         Stdout (str ''Processing '' @ f) # map Http (fst (validate env f False)), Inl e)"
    by (simp add: batch_append_ok batch_fault_first pf)
  have "snd (batch env (pre @ f # rest)) \<noteq> Inr ()"
    using pf by (simp add: batch_ok_iff)
  then have "\<exists>e'. snd (batch env (pre @ f # rest)) = Inl e'"
    by (cases "snd (batch env (pre @ f # rest))") simp_all
  with first show ?thesis by simp
qed

theorem C6_witness:
  "selected (str ''3-5b.html'') \<and>
   snd (validate demo_env (str ''3-5b.html'') False) = Inl JSONDecodeError \<and>
   snd (batch demo_env [str ''other.html'', str ''3-5a.html'']) = Inr () \<and>
   batch demo_env
     ([str ''other.html'', str ''3-5a.html''] @ str ''3-5b.html'' # [str ''3-5a.html'']) =
     ([Stdout (str ''Processing '' @ str ''3-5a.html''),
       Http (upload (str ''3-5a.html'') demo_page),
       Stdout (str ''Type: error, Line: 2, Description: Bad tag''),
       Stdout (str ''Processing '' @ str ''3-5b.html''),
       Http (upload (str ''3-5b.html'') ''<p>'')], Inl JSONDecodeError)"
proof -
  have a: "snd (batch demo_env [str ''other.html'', str ''3-5a.html'']) = Inr ()"
    by (simp add: demo_process_skipped demo_process_a)
  have c: "snd (validate demo_env (str ''3-5b.html'') False) = Inl JSONDecodeError"
    by (simp add: demo_validate_b)
  show ?thesis
    using a c demo_selected(2)
      C6_fault_aborts_batch [OF demo_selected(2) c,
        of "[str ''other.html'', str ''3-5a.html'']" "[str ''3-5a.html'']"]
    by (simp add: demo_process_skipped demo_process_a demo_validate_b)
qed

subsection \<open>C7: the order of the directory entries\<close>

text \<open>
  Claim C7 says that two enumerations of the directory that are permutations of each
  other print the same set of diagnostic lines. It fails when the validator's response
  for one file makes the script raise: the lines of the files behind that file are not
  printed, and which files are behind it depends on the order. On the sample
  environment the response for \<^verbatim>\<open>3-5b.html\<close> is not JSON: with \<^verbatim>\<open>3-5a.html\<close>
  first its diagnostic is printed, with \<^verbatim>\<open>3-5b.html\<close> first nothing is.
\<close>

theorem C7_counterexample:
  "mset [str ''3-5a.html'', str ''3-5b.html''] = mset [str ''3-5b.html'', str ''3-5a.html''] \<and>
   diagnostics (fst (batch demo_env [str ''3-5a.html'', str ''3-5b.html''])) =
     [str ''Type: error, Line: 2, Description: Bad tag''] \<and>
   diagnostics (fst (batch demo_env [str ''3-5b.html'', str ''3-5a.html''])) = [] \<and>
   set (diagnostics (fst (batch demo_env [str ''3-5a.html'', str ''3-5b.html'']))) \<noteq>
   set (diagnostics (fst (batch demo_env [str ''3-5b.html'', str ''3-5a.html''])))"
  by (simp add: demo_process_a demo_process_b diagnostics_def bad_tag_diagnostic
      processing_not_diagnostic)

text \<open>
  Claim C7 as amended: when the run over one enumeration raises no fault, the run over
  every permutation of it raises none either and prints the same lines, each as often,
  and so the same set of diagnostic lines.
\<close>

theorem C7_same_diagnostics_without_fault:
  assumes "mset xs = mset ys" and "snd (batch env xs) = Inr ()"
  shows "snd (batch env ys) = Inr () \<and>
         mset (printed (fst (batch env ys))) = mset (printed (fst (batch env xs))) \<and>
         set (diagnostics (fst (batch env ys))) = set (diagnostics (fst (batch env xs)))"
proof -
  have m: "mset (printed (fst (batch env ys))) = mset (printed (fst (batch env xs)))"
    using assms by (rule batch_permuted(2))
  then have "set (printed (fst (batch env ys))) = set (printed (fst (batch env xs)))"
    by (rule mset_eq_setD)
  then show ?thesis
    using m batch_permuted(1) [OF assms] by (simp add: diagnostics_def)
qed

theorem C7_witness:
  "mset [str ''3-5a.html'', str ''other.html'', str ''3-5c.html''] =
     mset [str ''3-5c.html'', str ''3-5a.html'', str ''other.html''] \<and>
   snd (batch demo_env [str ''3-5a.html'', str ''other.html'', str ''3-5c.html'']) = Inr () \<and>
   snd (batch demo_env [str ''3-5c.html'', str ''3-5a.html'', str ''other.html'']) = Inr () \<and>
   diagnostics (fst (batch demo_env [str ''3-5a.html'', str ''other.html'', str ''3-5c.html''])) =
     [str ''Type: error, Line: 2, Description: Bad tag'',
      str ''Type: info, Line: 12, Description: Stray end tag''] \<and>
   diagnostics (fst (batch demo_env [str ''3-5c.html'', str ''3-5a.html'', str ''other.html''])) =
     [str ''Type: info, Line: 12, Description: Stray end tag'',
      str ''Type: error, Line: 2, Description: Bad tag''] \<and>
   set (diagnostics (fst (batch demo_env [str ''3-5c.html'', str ''3-5a.html'', str ''other.html'']))) =
   set (diagnostics (fst (batch demo_env [str ''3-5a.html'', str ''other.html'', str ''3-5c.html''])))"
proof -
  have a: "mset [str ''3-5a.html'', str ''other.html'', str ''3-5c.html''] =
     mset [str ''3-5c.html'', str ''3-5a.html'', str ''other.html'']"
    by simp
  have b: "snd (batch demo_env [str ''3-5a.html'', str ''other.html'', str ''3-5c.html'']) = Inr ()"
    by (simp add: demo_process_a demo_process_c demo_process_skipped)
  have c: "diagnostics
      (fst (batch demo_env [str ''3-5a.html'', str ''other.html'', str ''3-5c.html''])) =
     [str ''Type: error, Line: 2, Description: Bad tag'',
      str ''Type: info, Line: 12, Description: Stray end tag'']"
    by (simp add: demo_process_a demo_process_c demo_process_skipped diagnostics_def
        bad_tag_diagnostic stray_diagnostic processing_not_diagnostic)
  have d: "diagnostics
      (fst (batch demo_env [str ''3-5c.html'', str ''3-5a.html'', str ''other.html''])) =
     [str ''Type: info, Line: 12, Description: Stray end tag'',
      str ''Type: error, Line: 2, Description: Bad tag'']"
    by (simp add: demo_process_a demo_process_c demo_process_skipped diagnostics_def
        bad_tag_diagnostic stray_diagnostic processing_not_diagnostic)
  show ?thesis
    using a b c d C7_same_diagnostics_without_fault [OF a b] by simp
qed

subsection \<open>C8: the parameter verbose\<close>

text \<open>
  Claim C8: the requests that \<open>validate\<close> sends and the value it returns or the fault it
  raises are the same for every two values of \<open>verbose\<close>.
\<close>

theorem C8_verbose_ignored: "validate env t v1 = validate env t v2"
  by (simp add: validate_def)

theorem C8_witness:
  "validate demo_env (str ''3-5a.html'') True = validate demo_env (str ''3-5a.html'') False"
  by (rule C8_verbose_ignored)

subsection \<open>C9: the status of the GET response\<close>

text \<open>
  Claim C9: for a remote target whose GET is answered, the body of the answer is what
  the POST uploads, and replacing the status of the answer by any other status changes
  neither the requests nor the outcome of \<open>validate\<close>.
\<close>

theorem C9_get_status_ignored:
  assumes "prefix (str ''http://'') t \<or> prefix (str ''https://'') t"
    and "send env (Get t False) = Some r"
  shows "validate (env\<lparr>send := (send env)(Get t False \<mapsto> r\<lparr>status_code := s\<rparr>)\<rparr>) t v =
           validate env t v \<and>
         fst (validate env t v) =
           [Get t False,
            Post HTML_VALIDATOR_URL [(str ''file'', (t, content r, str ''text/html''))]
              [(str ''out'', str ''json''), (str ''showsource'', str ''yes'')] False]"
proof -
  have rem: "is_remote t" using assms(1) by (simp add: is_remote_prefix)
  have "validate (env\<lparr>send := (send env)(Get t False \<mapsto> r\<lparr>status_code := s\<rparr>)\<rparr>) t v =
      validate env t v"
    using rem assms(2)
    by (simp add: validate_def acquire_def fetch_def upload_def split: option.split)
  moreover have "fst (validate env t v) = [Get t False, upload t (content r)]"
    using rem assms(2) by (rule validate_remote)
  ultimately show ?thesis by (simp add: upload_def)
qed

text \<open>The page of the sample environment comes with status 404 and is uploaded.\<close>

theorem C9_witness:
  "(prefix (str ''http://'') (str ''https://example.com/page.html'') \<or>
    prefix (str ''https://'') (str ''https://example.com/page.html'')) \<and>
   send demo_env (Get (str ''https://example.com/page.html'') False) =
     Some \<lparr>status_code = 404, content = ''<h1>Not Found</h1>''\<rparr> \<and>
   validate (demo_env\<lparr>send := (send demo_env)(Get (str ''https://example.com/page.html'') False \<mapsto>
       \<lparr>status_code = 200, content = ''<h1>Not Found</h1>''\<rparr>)\<rparr>)
     (str ''https://example.com/page.html'') False =
   validate demo_env (str ''https://example.com/page.html'') False \<and>
   fst (validate demo_env (str ''https://example.com/page.html'') False) =
     [Get (str ''https://example.com/page.html'') False,
      Post HTML_VALIDATOR_URL
        [(str ''file'', (str ''https://example.com/page.html'', ''<h1>Not Found</h1>'',
           str ''text/html''))]
        [(str ''out'', str ''json''), (str ''showsource'', str ''yes'')] False]"
proof -
  have p: "prefix (str ''http://'') (str ''https://example.com/page.html'') \<or>
    prefix (str ''https://'') (str ''https://example.com/page.html'')"
    by (simp add: str_def)
  show ?thesis
    using p demo_get C9_get_status_ignored [OF p demo_get, of 200 False] by simp
qed

subsection \<open>C10: the metadata of the uploaded file\<close>

text \<open>
  Claim C10: every POST that \<open>validate\<close> sends goes to the validator endpoint and has
  one file part, in the field \<open>file\<close>, whose file name is the target itself and whose
  content type is \<^verbatim>\<open>text/html\<close>.
\<close>

theorem C10_upload_metadata:
  assumes "Post u fs d vf \<in> set (fst (validate env t v))"
  shows "u = HTML_VALIDATOR_URL \<and> (\<exists>b. fs = [(str ''file'', (t, b, str ''text/html''))])"
  using validate_posts [OF assms] by (auto simp add: upload_def)

theorem C10_witness:
  "Post HTML_VALIDATOR_URL
     [(str ''file'', (str ''https://example.com/page.html'', ''<h1>Not Found</h1>'',
        str ''text/html''))]
     [(str ''out'', str ''json''), (str ''showsource'', str ''yes'')] False
     \<in> set (fst (validate demo_env (str ''https://example.com/page.html'') False)) \<and>
   (\<exists>b. [(str ''file'', (str ''https://example.com/page.html'', ''<h1>Not Found</h1>'',
        str ''text/html''))] =
     [(str ''file'', (str ''https://example.com/page.html'', b, str ''text/html''))])"
proof -
  have a: "Post HTML_VALIDATOR_URL
     [(str ''file'', (str ''https://example.com/page.html'', ''<h1>Not Found</h1>'',
        str ''text/html''))]
     [(str ''out'', str ''json''), (str ''showsource'', str ''yes'')] False
     \<in> set (fst (validate demo_env (str ''https://example.com/page.html'') False))"
    using validate_remote [OF demo_remote demo_get, of False] by (simp add: upload_def)
  show ?thesis
    using a C10_upload_metadata [OF a] by simp
qed

end
